theory Spec2Isabelle
  imports Complex_Main "HOL-Library.Multiset"
begin

section \<open>GeoMath: \<^verbatim>\<open>extras/wigle_to_skylift.py\<close>\<close>

text \<open>
  A point is the Python tuple \<^verbatim>\<open>(lat, lon)\<close>; \<^verbatim>\<open>p[0]\<close> is \<open>fst p\<close> and
  \<^verbatim>\<open>p[1]\<close> is \<open>snd p\<close>. Coordinates and distances are Python floats; they are
  modelled by the real number a finite float denotes, on which the comparisons of the
  source (\<^verbatim>\<open><\<close> and \<^verbatim>\<open>>\<close>, against other floats and integer literals) are exact.

  \<^verbatim>\<open>geopy.distance.geodesic(p1, p2).m\<close> belongs to the geopy library, not to this
  repository: every function that calls it takes it as the parameter \<open>geodesic\<close>.
\<close>

type_synonym point = "real \<times> real"

type_synonym geodesic_m = "point \<Rightarrow> point \<Rightarrow> real"

text \<open>
  \<^verbatim>\<open>
  def get_geo_distance(p1, p2):
      d = geopy.distance.geodesic(p1, p2).m
      return -d if (p2[0] < p1[0] or p2[1] > p1[1]) else d
  \<close>
\<close>

definition get_geo_distance :: "geodesic_m \<Rightarrow> point \<Rightarrow> point \<Rightarrow> real" where
  "get_geo_distance geodesic p1 p2 =
     (let d = geodesic p1 p2
      in if fst p2 < fst p1 \<or> snd p2 > snd p1 then - d else d)"

text \<open>
  \<^verbatim>\<open>
  def calc_geo_rssi(p1, p2):
      m = geopy.distance.geodesic(p1, p2).m
      if m > 1000:   rssi = -90
      elif m > 500:  rssi = -80
      elif m > 250:  rssi = -75
      elif m > 125:  rssi = -65
      elif m > 50:   rssi = -55
      else:          rssi = -50
      return rssi
  \<close>
\<close>

definition calc_geo_rssi :: "geodesic_m \<Rightarrow> point \<Rightarrow> point \<Rightarrow> int" where
  "calc_geo_rssi geodesic p1 p2 =
     (let m = geodesic p1 p2
      in if m > 1000 then - 90
         else if m > 500 then - 80
         else if m > 250 then - 75
         else if m > 125 then - 65
         else if m > 50 then - 55
         else - 50)"

section \<open>The canonical schema: \<^verbatim>\<open>src/models/network.py\<close>\<close>

text \<open>
  \<^verbatim>\<open>class Network(BaseModel)\<close>: the declared fields, an \<^verbatim>\<open>Optional\<close> field as an
  \<open>option\<close>, Python's unbounded \<^verbatim>\<open>int\<close> as \<open>int\<close>.
\<close>

record Network =
  bssid :: string
  channel :: int
  rssi :: int
  lat :: real
  lon :: real
  ssid :: "string option"
  distance_x :: "real option"
  distance_xy :: "real option"
  distance_y :: "real option"
  qos :: "int option"

text \<open>
  \<^verbatim>\<open>
  def channel_as_2pt4(self):
      return max(0, min(self.channel, 11))
  \<close>
  A method may assign to the fields of \<^verbatim>\<open>self\<close>, so the model returns the value
  together with the object as the call leaves it. This method assigns nothing.
\<close>

definition channel_as_2pt4 :: "Network \<Rightarrow> int \<times> Network" where
  "channel_as_2pt4 self = (max 0 (min (channel self) 11), self)"

text \<open>
  The exceptions of Python that the modelled code can raise. A function that can raise
  returns \<open>py_error + 'a\<close>, with \<open>Inl\<close> for the exception.
\<close>

datatype py_error = IndexError | ValueError | UnboundLocalError

text \<open>\<^verbatim>\<open>xs[k]\<close>: a negative index counts from the end, an index out of range raises.\<close>

definition py_getitem :: "'a list \<Rightarrow> int \<Rightarrow> py_error + 'a" where
  "py_getitem xs k =
     (let n = int (length xs); j = (if k < 0 then n + k else k)
      in if 0 \<le> j \<and> j < n then Inr (xs ! nat j) else Inl IndexError)"

text \<open>\<^verbatim>\<open>xs[:k]\<close>: a negative bound counts from the end, and the slice never raises.\<close>

definition py_slice_to :: "'a list \<Rightarrow> int \<Rightarrow> 'a list" where
  "py_slice_to xs k =
     (if k < 0 then take (nat (int (length xs) + k)) xs else take (nat k) xs)"

text \<open>
  \<^verbatim>\<open>s.split(sep)\<close> for a separator of one character: a scan that closes the current
  segment at every separator, so the result is never empty.
\<close>

fun split_from :: "char \<Rightarrow> string \<Rightarrow> string \<Rightarrow> string list" where
  "split_from sep cur [] = [cur]"
| "split_from sep cur (c # cs) =
     (if c = sep then cur # split_from sep [] cs else split_from sep (cur @ [c]) cs)"

definition py_split :: "string \<Rightarrow> char \<Rightarrow> string list" where
  "py_split s sep = split_from sep [] s"

text \<open>
  \<^verbatim>\<open>class Meta(BaseModel)\<close>. Its \<^verbatim>\<open>lat\<close>, \<^verbatim>\<open>lon\<close> and \<^verbatim>\<open>type\<close> carry a suffix here,
  the first two being fields of \<open>Network\<close> already.
\<close>

record Meta =
  comment :: "string option"
  filepath :: "string option"
  lat_meta :: "real option"
  lon_meta :: "real option"
  radius :: "real option"
  run :: "int option"
  since :: "int option"
  type_meta :: "string option"

text \<open>\<^verbatim>\<open>class Networks(BaseModel)\<close>.\<close>

record Networks =
  meta :: "Meta option"
  networks :: "Network list"
  filename :: string
  n_wifi :: int
  n_bt :: int
  wifi :: "Network list"
  bt :: "Network list"

text \<open>
  \<^verbatim>\<open>sorted(xs, key=lambda x: (x.rssi), reverse=True)\<close>: Python's sort is stable, also
  with \<^verbatim>\<open>reverse=True\<close>, so this is the stable sort by descending \<^verbatim>\<open>rssi\<close>.
\<close>

definition sorted_by_rssi_reverse :: "Network list \<Rightarrow> Network list" where
  "sorted_by_rssi_reverse xs = sort_key (\<lambda>x. - rssi x) xs"

text \<open>
  \<^verbatim>\<open>
  def model_post_init(self):
      if not self.filename and self.meta and self.meta.filepath:
          self.filename = self.meta.filepath.split('/')[-1]
      if self.networks and not self.wifi:
          self.wifi = self.networks
      self.wifi = sorted(self.wifi, key=lambda x: (x.rssi), reverse=True)
      self.bt = sorted(self.bt, key=lambda x: (x.rssi), reverse=True)
      self.n_wifi = len(self.wifi)
      self.n_bt = len(self.bt)
  \<close>
  The object is the state: the model returns it as the assignments leave it. A string
  and a list are true when they are not empty, a \<^verbatim>\<open>Meta\<close> object whenever it is there.
  The definition is the method called with the object alone, as it is declared. When
  and with which arguments pydantic's base class calls it is the library's part and is
  not modelled.
\<close>

definition model_post_init :: "Networks \<Rightarrow> py_error + Networks" where
  "model_post_init self =
     (case (case meta self of
              None \<Rightarrow> Inr self
            | Some m \<Rightarrow>
                (case filepath m of
                   None \<Rightarrow> Inr self
                 | Some fp \<Rightarrow>
                     if filename self = [] \<and> fp \<noteq> [] then
                       (case py_getitem (py_split fp CHR ''/'') (- 1) of
                          Inl e \<Rightarrow> Inl e
                        | Inr seg \<Rightarrow> Inr (self\<lparr>filename := seg\<rparr>))
                     else Inr self)) of
        Inl e \<Rightarrow> Inl e
      | Inr s1 \<Rightarrow>
          (let s2 = (if networks s1 \<noteq> [] \<and> wifi s1 = []
                     then s1\<lparr>wifi := networks s1\<rparr> else s1);
               s3 = s2\<lparr>wifi := sorted_by_rssi_reverse (wifi s2)\<rparr>;
               s4 = s3\<lparr>bt := sorted_by_rssi_reverse (bt s3)\<rparr>;
               s5 = s4\<lparr>n_wifi := int (length (wifi s4))\<rparr>;
               s6 = s5\<lparr>n_bt := int (length (bt s5))\<rparr>
           in Inr s6))"

text \<open>
  \<^verbatim>\<open>arg if arg else dflt\<close> for an optional integer argument: \<^verbatim>\<open>None\<close> and \<^verbatim>\<open>0\<close> are
  both false.
\<close>

definition or_default :: "int option \<Rightarrow> int \<Rightarrow> int" where
  "or_default arg dflt = (case arg of None \<Rightarrow> dflt | Some v \<Rightarrow> if v \<noteq> 0 then v else dflt)"

text \<open>
  \<^verbatim>\<open>
  def get_networks(self, min_rssi=None, max_rssi=None, max_networks=None,
                  device_type='wifi'):
      if device_type == 'wifi':
          nets = self.wifi or self.networks  # Try wifi first, fall back to networks
      elif device_type == 'bt':
          nets = self.bt
      if not nets:
          return []
      rssis = [x.rssi for x in nets]
      min_rssi = min_rssi if min_rssi else min(rssis)
      max_rssi = max_rssi if max_rssi else max(rssis)
      max_networks = max_networks if max_networks else len(nets)
      filtered_nets = [x for x in nets if x.rssi >= min_rssi and x.rssi <= max_rssi]
      return filtered_nets[:max_networks]
  \<close>
  With any other \<^verbatim>\<open>device_type\<close> the name \<^verbatim>\<open>nets\<close> is unbound at \<^verbatim>\<open>if not nets\<close>.
  \<^verbatim>\<open>min\<close> and \<^verbatim>\<open>max\<close> are taken of a list that is not empty.
\<close>

definition get_networks ::
  "Networks \<Rightarrow> int option \<Rightarrow> int option \<Rightarrow> int option \<Rightarrow> string \<Rightarrow>
   py_error + Network list" where
  "get_networks self min_rssi max_rssi max_networks device_type =
     (if device_type \<noteq> ''wifi'' \<and> device_type \<noteq> ''bt'' then Inl UnboundLocalError
      else
        (let nets = (if device_type = ''wifi''
                     then (if wifi self \<noteq> [] then wifi self else networks self)
                     else bt self)
         in if nets = [] then Inr []
            else
              (let rssis = map rssi nets;
                   min_rssi' = or_default min_rssi (Min (set rssis));
                   max_rssi' = or_default max_rssi (Max (set rssis));
                   max_networks' = or_default max_networks (int (length nets));
                   filtered_nets =
                     filter (\<lambda>x. rssi x \<ge> min_rssi' \<and> rssi x \<le> max_rssi') nets
               in Inr (py_slice_to filtered_nets max_networks'))))"

section \<open>The converter script: \<^verbatim>\<open>extras/wigle_to_skylift.py\<close>, \<^verbatim>\<open>main\<close>\<close>

subsection \<open>The command line\<close>

text \<open>
  \<^verbatim>\<open>int\<close> is Python's built-in, not this repository's, and what it accepts depends on
  the interpreter (the Unicode tables for white space and digits, the limit on the
  number of digits): \<^verbatim>\<open>nets_per_of_arg\<close> takes it as the parameter \<open>py_int\<close>, from a
  string to the integer it returns or the exception it raises.
\<close>

type_synonym py_int_builtin = "string \<Rightarrow> py_error + int"

text \<open>
  Lines 55 to 59 of \<^verbatim>\<open>main\<close>, on \<^verbatim>\<open>sys.argv\<close>:
  \<^verbatim>\<open>
  nets_per_of = 20
  try:
      nets_per_of = int(sys.argv[5])
  except IndexError:
      pass
  \<close>
  The \<^verbatim>\<open>try\<close> covers the index and the call; an \<^verbatim>\<open>IndexError\<close> is caught and leaves
  the 20, any other exception leaves \<^verbatim>\<open>main\<close>.
\<close>

definition nets_per_of_arg :: "py_int_builtin \<Rightarrow> string list \<Rightarrow> py_error + int" where
  "nets_per_of_arg py_int argv =
     (case (case py_getitem argv 5 of
              Inl e \<Rightarrow> Inl e
            | Inr a \<Rightarrow> py_int a) of
        Inl e \<Rightarrow> if e = IndexError then Inr 20 else Inl e
      | Inr n \<Rightarrow> Inr n)"

subsection \<open>The output files\<close>

text \<open>
  \<^verbatim>\<open>xs[lo:hi]\<close>: each bound, when negative, counts from the end; both are then cut to
  the list, and the slice is empty when they cross.
\<close>

definition py_slice :: "'a list \<Rightarrow> int \<Rightarrow> int \<Rightarrow> 'a list" where
  "py_slice xs lo hi =
     (let n = int (length xs);
          start = (if lo < 0 then max 0 (n + lo) else min lo n);
          stop = (if hi < 0 then max 0 (n + hi) else min hi n)
      in take (nat (stop - start)) (drop (nat start) xs))"

text \<open>\<^verbatim>\<open>str(k)\<close> of an integer, as the f-string \<^verbatim>\<open>f"skylift_{i+1}.json"\<close> formats it.\<close>

definition digit_char :: "nat \<Rightarrow> char" where
  "digit_char d = ''0123456789'' ! d"

function str_nat :: "nat \<Rightarrow> string" where
  "str_nat n = (if n < 10 then [digit_char n] else str_nat (n div 10) @ [digit_char (n mod 10)])"
  by pat_completeness auto
termination
  by (relation "measure id") auto

declare str_nat.simps [simp del]

definition py_str :: "int \<Rightarrow> string" where
  "py_str k = (if k < 0 then CHR ''-'' # str_nat (nat (- k)) else str_nat (nat k))"

text \<open>\<^verbatim>\<open>os.sep\<close>, on a POSIX system.\<close>

definition os_sep :: string where
  "os_sep = ''/''"

text \<open>
  The dictionaries that \<^verbatim>\<open>main\<close> builds, with their keys as fields (prefixed, the keys
  being fields of the schema's records too): \<^verbatim>\<open>sl_meta\<close>, one \<^verbatim>\<open>sl_network\<close> for each
  network, and the \<^verbatim>\<open>sl_data\<close> that is dumped into one file.
\<close>

record sl_meta =
  m_comment :: string
  m_filepath :: string
  m_lat :: real
  m_lon :: real
  m_radius :: int
  m_run :: int
  m_since :: int
  m_type :: string

record sl_network =
  sl_bssid :: string
  sl_channel :: int
  sl_distance_x :: real
  sl_distance_xy :: real
  sl_distance_y :: real
  sl_lat :: real
  sl_lon :: real
  sl_qos :: "int option"
  sl_rssi :: int
  sl_ssid :: "string option"

record sl_data =
  data_meta :: sl_meta
  data_networks :: "sl_network list"

text \<open>
  The effect of the loop is the files it writes. A file is its path \<^verbatim>\<open>fn_out\<close> and the
  \<^verbatim>\<open>sl_data\<close> dumped into it; the state of the loop carries the files written so far, in
  the order of writing. The output directory is emptied before the loop starts.
\<close>

record outfile =
  fn_out :: string
  dumped :: sl_data

text \<open>
  \<^verbatim>\<open>sl_networks.sort(key=lambda sl_network: abs(sl_network["distance_xy"]))\<close>: a stable
  sort by the absolute value of \<^verbatim>\<open>distance_xy\<close>.
\<close>

definition sort_networks :: "sl_network list \<Rightarrow> sl_network list" where
  "sort_networks sl_networks =
     sort_key (\<lambda>sl_network. \<bar>sl_distance_xy sl_network\<bar>) sl_networks"

text \<open>
  \<^verbatim>\<open>
  n_nets = len(sl_networks)
  i = 0
  c = 0 # number of networks processed so far
  while c < n_nets:
      if n_nets - c == 0:
          return
      if n_nets - c < nets_per_of:
          nets_to_do = n_nets - c
      else:
          nets_to_do = nets_per_of
      sl_data = {}
      sl_data["meta"] = sl_meta
      sl_data["networks"] = sl_networks[c:c+nets_to_do]
      fn_out = out_dir + os.sep + f"skylift_{i+1}.json"
      f = open(fn_out, "w")
      json.dump(sl_data, f, indent=2)
      f.close()
      c += nets_to_do
      i += 1
  \<close>
  With \<^verbatim>\<open>nets_per_of\<close> zero or negative and a list that is not empty, \<^verbatim>\<open>c\<close> never reaches
  \<^verbatim>\<open>n_nets\<close> and the loop does not end: the model is a partial function, \<open>None\<close> where
  the loop runs forever.
\<close>

partial_function (option) write_loop ::
  "string \<Rightarrow> sl_meta \<Rightarrow> sl_network list \<Rightarrow> int \<Rightarrow> int \<Rightarrow> int \<Rightarrow> outfile list \<Rightarrow>
   outfile list option" where
  "write_loop out_dir sl_meta sl_networks nets_per_of i c written =
     (let n_nets = int (length sl_networks)
      in if c < n_nets then
           if n_nets - c = 0 then Some written
           else
             (let nets_to_do = (if n_nets - c < nets_per_of then n_nets - c else nets_per_of);
                  sl_data = \<lparr>data_meta = sl_meta,
                             data_networks = py_slice sl_networks c (c + nets_to_do)\<rparr>;
                  fn = out_dir @ os_sep @ ''skylift_'' @ py_str (i + 1) @ ''.json''
              in write_loop out_dir sl_meta sl_networks nets_per_of (i + 1) (c + nets_to_do)
                   (written @ [\<lparr>fn_out = fn, dumped = sl_data\<rparr>]))
         else Some written)"

declare write_loop.simps [code]

text \<open>Lines 117 to 141: the loop from \<^verbatim>\<open>i = 0\<close>, \<^verbatim>\<open>c = 0\<close> and no file written.\<close>

definition write_outfiles ::
  "string \<Rightarrow> sl_meta \<Rightarrow> sl_network list \<Rightarrow> int \<Rightarrow> outfile list option" where
  "write_outfiles out_dir sl_meta sl_networks nets_per_of =
     write_loop out_dir sl_meta sl_networks nets_per_of 0 0 []"

text \<open>Lines 105 to 141: the sort, then the loop on the sorted list.\<close>

definition main_write ::
  "string \<Rightarrow> sl_meta \<Rightarrow> sl_network list \<Rightarrow> int \<Rightarrow> outfile list option" where
  "main_write out_dir sl_meta sl_networks nets_per_of =
     write_outfiles out_dir sl_meta (sort_networks sl_networks) nets_per_of"

text \<open>
  For the invariant of the loop: the slices it takes from a list, \<open>k\<close> elements at a
  time, and the files it writes for them from the index \<open>i\<close> on.
\<close>

function chunks :: "nat \<Rightarrow> 'a list \<Rightarrow> 'a list list" where
  "chunks k xs = (if k = 0 \<or> xs = [] then [] else take k xs # chunks k (drop k xs))"
  by pat_completeness auto
termination
  by (relation "measure (\<lambda>(k, xs). length xs)") auto

declare chunks.simps [simp del]

fun outfiles :: "string \<Rightarrow> sl_meta \<Rightarrow> int \<Rightarrow> sl_network list list \<Rightarrow> outfile list" where
  "outfiles out_dir sl_meta i [] = []"
| "outfiles out_dir sl_meta i (ch # chs) =
     \<lparr>fn_out = out_dir @ os_sep @ ''skylift_'' @ py_str (i + 1) @ ''.json'',
      dumped = \<lparr>data_meta = sl_meta, data_networks = ch\<rparr>\<rparr>
       # outfiles out_dir sl_meta (i + 1) chs"

section \<open>GeoMath: the properties\<close>

text \<open>
  C1. \<^verbatim>\<open>calc_geo_rssi\<close> is the step function of the geodesic distance \<open>d\<close> of its two
  points: \<open>-90\<close> if \<open>d > 1000\<close>, \<open>-80\<close> if \<open>500 < d \<le> 1000\<close>, \<open>-75\<close> if
  \<open>250 < d \<le> 500\<close>, \<open>-65\<close> if \<open>125 < d \<le> 250\<close>, \<open>-55\<close> if \<open>50 < d \<le> 125\<close> and
  \<open>-50\<close> if \<open>d \<le> 50\<close>. At the boundary distances 1000, 500, 250, 125 and 50 the result
  is that of the closer bucket (\<open>-80\<close>, \<open>-75\<close>, \<open>-65\<close>, \<open>-55\<close>, \<open>-50\<close>), and the result
  never increases when the distance grows.
\<close>

theorem calc_geo_rssi_step_function:
  "(1000 < geodesic p1 p2 \<longrightarrow> calc_geo_rssi geodesic p1 p2 = - 90) \<and>
   (500 < geodesic p1 p2 \<and> geodesic p1 p2 \<le> 1000 \<longrightarrow> calc_geo_rssi geodesic p1 p2 = - 80) \<and>
   (250 < geodesic p1 p2 \<and> geodesic p1 p2 \<le> 500 \<longrightarrow> calc_geo_rssi geodesic p1 p2 = - 75) \<and>
   (125 < geodesic p1 p2 \<and> geodesic p1 p2 \<le> 250 \<longrightarrow> calc_geo_rssi geodesic p1 p2 = - 65) \<and>
   (50 < geodesic p1 p2 \<and> geodesic p1 p2 \<le> 125 \<longrightarrow> calc_geo_rssi geodesic p1 p2 = - 55) \<and>
   (geodesic p1 p2 \<le> 50 \<longrightarrow> calc_geo_rssi geodesic p1 p2 = - 50) \<and>
   (geodesic p1 p2 = 1000 \<longrightarrow> calc_geo_rssi geodesic p1 p2 = - 80) \<and>
   (geodesic p1 p2 = 500 \<longrightarrow> calc_geo_rssi geodesic p1 p2 = - 75) \<and>
   (geodesic p1 p2 = 250 \<longrightarrow> calc_geo_rssi geodesic p1 p2 = - 65) \<and>
   (geodesic p1 p2 = 125 \<longrightarrow> calc_geo_rssi geodesic p1 p2 = - 55) \<and>
   (geodesic p1 p2 = 50 \<longrightarrow> calc_geo_rssi geodesic p1 p2 = - 50) \<and>
   (\<forall>q1 q2. geodesic p1 p2 \<le> geodesic q1 q2 \<longrightarrow>
      calc_geo_rssi geodesic q1 q2 \<le> calc_geo_rssi geodesic p1 p2)"
  by (simp add: calc_geo_rssi_def Let_def)

text \<open>
  The step function at a stand-in distance function (a thousand times the difference of
  the latitudes plus that of the longitudes): one pair of points in each bucket, the five
  boundary distances, and two pairs ordered by distance.
\<close>

theorem calc_geo_rssi_step_function_witness:
  "calc_geo_rssi (\<lambda>p q. 1000 * (\<bar>fst p - fst q\<bar> + \<bar>snd p - snd q\<bar>)) (0, 0) (1, 1) = - 90 \<and>
   calc_geo_rssi (\<lambda>p q. 1000 * (\<bar>fst p - fst q\<bar> + \<bar>snd p - snd q\<bar>)) (0, 0) (1, 0) = - 80 \<and>
   calc_geo_rssi (\<lambda>p q. 1000 * (\<bar>fst p - fst q\<bar> + \<bar>snd p - snd q\<bar>)) (0, 0) (1 / 2, 0) = - 75 \<and>
   calc_geo_rssi (\<lambda>p q. 1000 * (\<bar>fst p - fst q\<bar> + \<bar>snd p - snd q\<bar>)) (0, 0) (1 / 4, 0) = - 65 \<and>
   calc_geo_rssi (\<lambda>p q. 1000 * (\<bar>fst p - fst q\<bar> + \<bar>snd p - snd q\<bar>)) (0, 0) (1 / 8, 0) = - 55 \<and>
   calc_geo_rssi (\<lambda>p q. 1000 * (\<bar>fst p - fst q\<bar> + \<bar>snd p - snd q\<bar>)) (0, 0) (1 / 20, 0) = - 50 \<and>
   calc_geo_rssi (\<lambda>p q. 1000 * (\<bar>fst p - fst q\<bar> + \<bar>snd p - snd q\<bar>)) (0, 0) (3 / 4, 0) = - 80 \<and>
   calc_geo_rssi (\<lambda>p q. 1000 * (\<bar>fst p - fst q\<bar> + \<bar>snd p - snd q\<bar>)) (0, 0) (0, 0) = - 50 \<and>
   calc_geo_rssi (\<lambda>p q. 1000 * (\<bar>fst p - fst q\<bar> + \<bar>snd p - snd q\<bar>)) (0, 0) (2, 0)
     \<le> calc_geo_rssi (\<lambda>p q. 1000 * (\<bar>fst p - fst q\<bar> + \<bar>snd p - snd q\<bar>)) (0, 0) (3 / 4, 0)"
  using
    calc_geo_rssi_step_function
      [of "\<lambda>p q. 1000 * (\<bar>fst p - fst q\<bar> + \<bar>snd p - snd q\<bar>)" "(0, 0)" "(1, 1)"]
    calc_geo_rssi_step_function
      [of "\<lambda>p q. 1000 * (\<bar>fst p - fst q\<bar> + \<bar>snd p - snd q\<bar>)" "(0, 0)" "(1, 0)"]
    calc_geo_rssi_step_function
      [of "\<lambda>p q. 1000 * (\<bar>fst p - fst q\<bar> + \<bar>snd p - snd q\<bar>)" "(0, 0)" "(1 / 2, 0)"]
    calc_geo_rssi_step_function
      [of "\<lambda>p q. 1000 * (\<bar>fst p - fst q\<bar> + \<bar>snd p - snd q\<bar>)" "(0, 0)" "(1 / 4, 0)"]
    calc_geo_rssi_step_function
      [of "\<lambda>p q. 1000 * (\<bar>fst p - fst q\<bar> + \<bar>snd p - snd q\<bar>)" "(0, 0)" "(1 / 8, 0)"]
    calc_geo_rssi_step_function
      [of "\<lambda>p q. 1000 * (\<bar>fst p - fst q\<bar> + \<bar>snd p - snd q\<bar>)" "(0, 0)" "(1 / 20, 0)"]
    calc_geo_rssi_step_function
      [of "\<lambda>p q. 1000 * (\<bar>fst p - fst q\<bar> + \<bar>snd p - snd q\<bar>)" "(0, 0)" "(3 / 4, 0)"]
    calc_geo_rssi_step_function
      [of "\<lambda>p q. 1000 * (\<bar>fst p - fst q\<bar> + \<bar>snd p - snd q\<bar>)" "(0, 0)" "(0, 0)"]
  by (simp add: calc_geo_rssi_def)

text \<open>
  C8. For a geodesic distance that is not negative, the absolute value of
  \<^verbatim>\<open>get_geo_distance(reference, other)\<close> is the geodesic distance of the two points, and
  the result is negative exactly when the latitude of \<open>other\<close> is below that of
  \<open>reference\<close> or its longitude above, and the distance is not zero. Where the geodesic
  distance of a point to itself is zero, so is \<^verbatim>\<open>get_geo_distance(p, p)\<close>.
\<close>

theorem get_geo_distance_signed:
  assumes "0 \<le> geodesic p1 p2"
  shows "\<bar>get_geo_distance geodesic p1 p2\<bar> = geodesic p1 p2 \<and>
         (get_geo_distance geodesic p1 p2 < 0 \<longleftrightarrow>
            (fst p2 < fst p1 \<or> snd p2 > snd p1) \<and> geodesic p1 p2 \<noteq> 0) \<and>
         (p2 = p1 \<and> geodesic p1 p1 = 0 \<longrightarrow> get_geo_distance geodesic p1 p2 = 0)"
  using assms by (auto simp: get_geo_distance_def Let_def)

theorem get_geo_distance_signed_witness:
  "get_geo_distance (\<lambda>p q. 1000 * (\<bar>fst p - fst q\<bar> + \<bar>snd p - snd q\<bar>)) (2, 3) (1, 3) = - 1000 \<and>
   get_geo_distance (\<lambda>p q. 1000 * (\<bar>fst p - fst q\<bar> + \<bar>snd p - snd q\<bar>)) (2, 3) (2, 4) < 0 \<and>
   \<not> get_geo_distance (\<lambda>p q. 1000 * (\<bar>fst p - fst q\<bar> + \<bar>snd p - snd q\<bar>)) (2, 3) (3, 2) < 0 \<and>
   get_geo_distance (\<lambda>p q. 1000 * (\<bar>fst p - fst q\<bar> + \<bar>snd p - snd q\<bar>)) (2, 3) (2, 3) = 0"
  using
    get_geo_distance_signed
      [of "\<lambda>p q. 1000 * (\<bar>fst p - fst q\<bar> + \<bar>snd p - snd q\<bar>)" "(2, 3)" "(1, 3)"]
    get_geo_distance_signed
      [of "\<lambda>p q. 1000 * (\<bar>fst p - fst q\<bar> + \<bar>snd p - snd q\<bar>)" "(2, 3)" "(2, 4)"]
    get_geo_distance_signed
      [of "\<lambda>p q. 1000 * (\<bar>fst p - fst q\<bar> + \<bar>snd p - snd q\<bar>)" "(2, 3)" "(3, 2)"]
    get_geo_distance_signed
      [of "\<lambda>p q. 1000 * (\<bar>fst p - fst q\<bar> + \<bar>snd p - snd q\<bar>)" "(2, 3)" "(2, 3)"]
  by (simp add: get_geo_distance_def)

section \<open>The canonical schema: the properties\<close>

text \<open>
  C9. \<^verbatim>\<open>channel_as_2pt4\<close> returns the channel clamped into \<open>[0, 11]\<close>: the stored
  channel when it lies in that range, 0 when it is below, 11 when it is above; and the
  call leaves the record as it was.
\<close>

theorem channel_as_2pt4_clamps:
  "0 \<le> fst (channel_as_2pt4 self) \<and> fst (channel_as_2pt4 self) \<le> 11 \<and>
   (0 \<le> channel self \<and> channel self \<le> 11 \<longrightarrow> fst (channel_as_2pt4 self) = channel self) \<and>
   (channel self < 0 \<longrightarrow> fst (channel_as_2pt4 self) = 0) \<and>
   (11 < channel self \<longrightarrow> fst (channel_as_2pt4 self) = 11) \<and>
   snd (channel_as_2pt4 self) = self"
  by (simp add: channel_as_2pt4_def)

theorem channel_as_2pt4_clamps_witness:
  "fst (channel_as_2pt4 \<lparr>bssid = ''aa:bb'', channel = 6, rssi = - 50, lat = 0, lon = 0,
      ssid = Some ''x'', distance_x = None, distance_xy = None, distance_y = None,
      qos = None\<rparr>) = 6 \<and>
   fst (channel_as_2pt4 \<lparr>bssid = ''aa:bb'', channel = - 3, rssi = - 50, lat = 0, lon = 0,
      ssid = Some ''x'', distance_x = None, distance_xy = None, distance_y = None,
      qos = None\<rparr>) = 0 \<and>
   fst (channel_as_2pt4 \<lparr>bssid = ''aa:bb'', channel = 36, rssi = - 50, lat = 0, lon = 0,
      ssid = Some ''x'', distance_x = None, distance_xy = None, distance_y = None,
      qos = None\<rparr>) = 11 \<and>
   channel (snd (channel_as_2pt4 \<lparr>bssid = ''aa:bb'', channel = 36, rssi = - 50, lat = 0,
      lon = 0, ssid = Some ''x'', distance_x = None, distance_xy = None, distance_y = None,
      qos = None\<rparr>)) = 36"
  using
    channel_as_2pt4_clamps [of "\<lparr>bssid = ''aa:bb'', channel = 6, rssi = - 50, lat = 0,
      lon = 0, ssid = Some ''x'', distance_x = None, distance_xy = None, distance_y = None,
      qos = None\<rparr>"]
    channel_as_2pt4_clamps [of "\<lparr>bssid = ''aa:bb'', channel = - 3, rssi = - 50, lat = 0,
      lon = 0, ssid = Some ''x'', distance_x = None, distance_xy = None, distance_y = None,
      qos = None\<rparr>"]
    channel_as_2pt4_clamps [of "\<lparr>bssid = ''aa:bb'', channel = 36, rssi = - 50, lat = 0,
      lon = 0, ssid = Some ''x'', distance_x = None, distance_xy = None, distance_y = None,
      qos = None\<rparr>"]
  by simp

subsection \<open>Strings and lists\<close>

lemma split_from_ne: "split_from sep cur s \<noteq> []"
  by (induction s arbitrary: cur) simp_all

lemma last_split_from:
  "last (split_from sep cur s) =
     (if sep \<in> set s then rev (takeWhile (\<lambda>c. c \<noteq> sep) (rev s)) else cur @ s)"
proof (induction s arbitrary: cur)
  case Nil
  show ?case by simp
next
  case (Cons c cs)
  show ?case
  proof (cases "c = sep")
    case True
    then show ?thesis
      by (simp add: Cons.IH [of "[]"] split_from_ne takeWhile_append)
  next
    case False
    then show ?thesis
      by (auto simp add: Cons.IH [of "cur @ [c]"] takeWhile_append)
  qed
qed

lemma last_py_split:
  "last (py_split s sep) = rev (takeWhile (\<lambda>c. c \<noteq> sep) (rev s))"
proof (cases "sep \<in> set s")
  case True
  then show ?thesis by (simp add: py_split_def last_split_from)
next
  case False
  then have "takeWhile (\<lambda>c. c \<noteq> sep) (rev s) = rev s"
    by (simp add: takeWhile_eq_all_conv) blast
  then have "rev (takeWhile (\<lambda>c. c \<noteq> sep) (rev s)) = s"
    by (simp only: rev_rev_ident)
  with False show ?thesis
    by (simp only: py_split_def last_split_from if_False append_Nil)
qed

lemma py_getitem_last: "xs \<noteq> [] \<Longrightarrow> py_getitem xs (- 1) = Inr (last xs)"
  by (cases xs rule: rev_cases) (simp_all add: py_getitem_def Let_def nth_append)

lemma py_getitem_split_last:
  "py_getitem (py_split s sep) (- 1) = Inr (rev (takeWhile (\<lambda>c. c \<noteq> sep) (rev s)))"
  using py_getitem_last [of "py_split s sep"]
  by (simp add: last_py_split) (simp add: py_split_def split_from_ne)

lemma py_slice_to_length: "py_slice_to xs (int (length xs)) = xs"
  by (simp add: py_slice_to_def)

lemma or_default_simps:
  "or_default None d = d" "or_default (Some 0) d = d"
  "v \<noteq> 0 \<Longrightarrow> or_default (Some v) d = v"
  by (simp_all add: or_default_def)

lemma filter_observed_bounds:
  "filter (\<lambda>y. Min (set (map rssi nets)) \<le> rssi y \<and> rssi y \<le> Max (set (map rssi nets))) nets
     = nets"
  by (rule filter_True) simp

subsection \<open>The post-initialisation method\<close>

text \<open>
  The filename that C4 is about, as the body of \<^verbatim>\<open>model_post_init\<close> sets it: called on
  an object whose filename is empty and whose meta has a filepath that is not empty, the
  method returns and leaves as the filename the final \<open>/\<close>-separated segment of the
  filepath, the part after its last \<open>/\<close>; for \<^verbatim>\<open>/a/b/c.json\<close> that is \<^verbatim>\<open>c.json\<close>.
  This is a statement about the method called on its own, not about the construction of
  an object.
\<close>

lemma model_post_init_filename:
  assumes "filename self0 = []" and "meta self0 = Some m"
    and "filepath m = Some fp" and "fp \<noteq> []"
  shows "\<exists>self. model_post_init self0 = Inr self \<and>
           filename self = rev (takeWhile (\<lambda>c. c \<noteq> CHR ''/'') (rev fp)) \<and>
           (fp = ''/a/b/c.json'' \<longrightarrow> filename self = ''c.json'')"
proof -
  have seg: "fp = ''/a/b/c.json'' \<Longrightarrow>
      rev (takeWhile (\<lambda>c. c \<noteq> CHR ''/'') (rev fp)) = ''c.json''"
    by simp
  show ?thesis
    using assms seg
    by (simp add: model_post_init_def py_getitem_split_last Let_def)
qed

subsection \<open>The query\<close>

text \<open>
  C5, as the code has it. \<^verbatim>\<open>get_networks\<close> returns the empty list when the device type
  is \<^verbatim>\<open>bt\<close> and the \<^verbatim>\<open>bt\<close> list is empty, and when the device type is \<^verbatim>\<open>wifi\<close> and both
  the \<^verbatim>\<open>wifi\<close> list and the \<^verbatim>\<open>networks\<close> list are empty, whatever the bounds. With an
  empty \<^verbatim>\<open>wifi\<close> list and a \<^verbatim>\<open>networks\<close> list that is not empty, \<^verbatim>\<open>wifi\<close> selects the
  \<^verbatim>\<open>networks\<close> list. On an object as \<^verbatim>\<open>model_post_init\<close> leaves it, an empty \<^verbatim>\<open>wifi\<close>
  list means an empty \<^verbatim>\<open>networks\<close> list, and the result is empty.
\<close>

theorem get_networks_empty_selection:
  "(bt self = [] \<longrightarrow> get_networks self min_rssi max_rssi max_networks ''bt'' = Inr []) \<and>
   (wifi self = [] \<and> networks self = [] \<longrightarrow>
      get_networks self min_rssi max_rssi max_networks ''wifi'' = Inr []) \<and>
   (wifi self = [] \<and> networks self \<noteq> [] \<longrightarrow>
      get_networks self None None None ''wifi'' = Inr (networks self)) \<and>
   (\<forall>s0. model_post_init s0 = Inr self \<and> wifi self = [] \<longrightarrow>
      get_networks self min_rssi max_rssi max_networks ''wifi'' = Inr [])"
proof -
  have sort_Nil: "sort_key f xs = [] \<longleftrightarrow> xs = []" for f :: "Network \<Rightarrow> int" and xs
    using length_sort [of f xs] by (metis length_0_conv)
  have norm: "networks self = []" if "model_post_init s0 = Inr self" "wifi self = []" for s0
    using that
    by (auto simp: model_post_init_def Let_def sorted_by_rssi_reverse_def sort_Nil
        split: option.splits sum.splits if_splits)
  show ?thesis
    using norm
    by (auto simp add: get_networks_def Let_def or_default_simps filter_observed_bounds
      py_slice_to_length simp del: set_map)
qed

theorem get_networks_empty_selection_witness:
  "get_networks \<lparr>meta = None, networks = [], filename = [], n_wifi = 3, n_bt = 0, wifi = [\<lparr>bssid = ''00:00:00:00:00:01'', channel = 1, rssi = - 50, lat = 0, lon = 0,
  ssid = Some ''a'', distance_x = None, distance_xy = None, distance_y = None, qos = None\<rparr>, \<lparr>bssid = ''00:00:00:00:00:02'', channel = 6, rssi = - 70, lat = 0, lon = 0,
  ssid = Some ''b'', distance_x = None, distance_xy = None, distance_y = None, qos = None\<rparr>, \<lparr>bssid = ''00:00:00:00:00:03'', channel = 11, rssi = - 90, lat = 0, lon = 0,
  ssid = Some ''c'', distance_x = None, distance_xy = None, distance_y = None, qos = None\<rparr>], bt = []\<rparr> (Some (- 60)) None (Some 2) ''bt'' = Inr [] \<and>
   get_networks \<lparr>meta = None, networks = [], filename = [], n_wifi = 0, n_bt = 0, wifi = [], bt = []\<rparr> (Some (- 60)) None (Some 2) ''wifi'' = Inr [] \<and>
   get_networks \<lparr>meta = None, networks = [\<lparr>bssid = ''00:00:00:00:00:02'', channel = 6, rssi = - 70, lat = 0, lon = 0,
  ssid = Some ''b'', distance_x = None, distance_xy = None, distance_y = None, qos = None\<rparr>], filename = [], n_wifi = 0, n_bt = 0, wifi = [], bt = []\<rparr> None None None ''wifi'' = Inr [\<lparr>bssid = ''00:00:00:00:00:02'', channel = 6, rssi = - 70, lat = 0, lon = 0,
  ssid = Some ''b'', distance_x = None, distance_xy = None, distance_y = None, qos = None\<rparr>]"
  using
    get_networks_empty_selection [of "\<lparr>meta = None, networks = [], filename = [], n_wifi = 3, n_bt = 0, wifi = [\<lparr>bssid = ''00:00:00:00:00:01'', channel = 1, rssi = - 50, lat = 0, lon = 0,
  ssid = Some ''a'', distance_x = None, distance_xy = None, distance_y = None, qos = None\<rparr>, \<lparr>bssid = ''00:00:00:00:00:02'', channel = 6, rssi = - 70, lat = 0, lon = 0,
  ssid = Some ''b'', distance_x = None, distance_xy = None, distance_y = None, qos = None\<rparr>, \<lparr>bssid = ''00:00:00:00:00:03'', channel = 11, rssi = - 90, lat = 0, lon = 0,
  ssid = Some ''c'', distance_x = None, distance_xy = None, distance_y = None, qos = None\<rparr>], bt = []\<rparr>" "Some (- 60)" None "Some 2"]
    get_networks_empty_selection [of "\<lparr>meta = None, networks = [], filename = [], n_wifi = 0, n_bt = 0, wifi = [], bt = []\<rparr>" "Some (- 60)" None "Some 2"]
    get_networks_empty_selection [of "\<lparr>meta = None, networks = [\<lparr>bssid = ''00:00:00:00:00:02'', channel = 6, rssi = - 70, lat = 0, lon = 0,
  ssid = Some ''b'', distance_x = None, distance_xy = None, distance_y = None, qos = None\<rparr>], filename = [], n_wifi = 0, n_bt = 0, wifi = [], bt = []\<rparr>" None None None]
  by simp

text \<open>
  C5 as the specification words it fails: the \<^verbatim>\<open>wifi\<close> list is empty, the \<^verbatim>\<open>networks\<close>
  list holds one record, and the query for \<^verbatim>\<open>wifi\<close> returns that record.
\<close>

theorem get_networks_empty_counterexample:
  "wifi \<lparr>meta = None, networks = [\<lparr>bssid = ''00:00:00:00:00:02'', channel = 6, rssi = - 70, lat = 0, lon = 0,
  ssid = Some ''b'', distance_x = None, distance_xy = None, distance_y = None, qos = None\<rparr>], filename = [], n_wifi = 0, n_bt = 0, wifi = [], bt = []\<rparr> = [] \<and>
   get_networks \<lparr>meta = None, networks = [\<lparr>bssid = ''00:00:00:00:00:02'', channel = 6, rssi = - 70, lat = 0, lon = 0,
  ssid = Some ''b'', distance_x = None, distance_xy = None, distance_y = None, qos = None\<rparr>], filename = [], n_wifi = 0, n_bt = 0, wifi = [], bt = []\<rparr> None None None ''wifi'' = Inr [\<lparr>bssid = ''00:00:00:00:00:02'', channel = 6, rssi = - 70, lat = 0, lon = 0,
  ssid = Some ''b'', distance_x = None, distance_xy = None, distance_y = None, qos = None\<rparr>]"
  by (simp add: get_networks_def or_default_def py_slice_to_def)

text \<open>
  C7. With a selected list that is not empty and no \<^verbatim>\<open>min_rssi\<close>, \<^verbatim>\<open>max_rssi\<close> and
  \<^verbatim>\<open>max_networks\<close>, \<^verbatim>\<open>get_networks\<close> returns the whole selected list in its order.
\<close>

theorem get_networks_no_bounds:
  "(wifi self \<noteq> [] \<longrightarrow> get_networks self None None None ''wifi'' = Inr (wifi self)) \<and>
   (bt self \<noteq> [] \<longrightarrow> get_networks self None None None ''bt'' = Inr (bt self))"
  by (simp add: get_networks_def Let_def or_default_simps filter_observed_bounds
      py_slice_to_length del: set_map)

text \<open>The example of the specification: three records of RSSI \<open>-50\<close>, \<open>-70\<close>, \<open>-90\<close>.\<close>

theorem get_networks_no_bounds_witness:
  "get_networks \<lparr>meta = None, networks = [], filename = [], n_wifi = 3, n_bt = 0, wifi = [\<lparr>bssid = ''00:00:00:00:00:01'', channel = 1, rssi = - 50, lat = 0, lon = 0,
  ssid = Some ''a'', distance_x = None, distance_xy = None, distance_y = None, qos = None\<rparr>, \<lparr>bssid = ''00:00:00:00:00:02'', channel = 6, rssi = - 70, lat = 0, lon = 0,
  ssid = Some ''b'', distance_x = None, distance_xy = None, distance_y = None, qos = None\<rparr>, \<lparr>bssid = ''00:00:00:00:00:03'', channel = 11, rssi = - 90, lat = 0, lon = 0,
  ssid = Some ''c'', distance_x = None, distance_xy = None, distance_y = None, qos = None\<rparr>], bt = []\<rparr> None None None ''wifi'' = Inr [\<lparr>bssid = ''00:00:00:00:00:01'', channel = 1, rssi = - 50, lat = 0, lon = 0,
  ssid = Some ''a'', distance_x = None, distance_xy = None, distance_y = None, qos = None\<rparr>, \<lparr>bssid = ''00:00:00:00:00:02'', channel = 6, rssi = - 70, lat = 0, lon = 0,
  ssid = Some ''b'', distance_x = None, distance_xy = None, distance_y = None, qos = None\<rparr>, \<lparr>bssid = ''00:00:00:00:00:03'', channel = 11, rssi = - 90, lat = 0, lon = 0,
  ssid = Some ''c'', distance_x = None, distance_xy = None, distance_y = None, qos = None\<rparr>]"
  using get_networks_no_bounds [of "\<lparr>meta = None, networks = [], filename = [], n_wifi = 3, n_bt = 0, wifi = [\<lparr>bssid = ''00:00:00:00:00:01'', channel = 1, rssi = - 50, lat = 0, lon = 0,
  ssid = Some ''a'', distance_x = None, distance_xy = None, distance_y = None, qos = None\<rparr>, \<lparr>bssid = ''00:00:00:00:00:02'', channel = 6, rssi = - 70, lat = 0, lon = 0,
  ssid = Some ''b'', distance_x = None, distance_xy = None, distance_y = None, qos = None\<rparr>, \<lparr>bssid = ''00:00:00:00:00:03'', channel = 11, rssi = - 90, lat = 0, lon = 0,
  ssid = Some ''c'', distance_x = None, distance_xy = None, distance_y = None, qos = None\<rparr>], bt = []\<rparr>"]
  by simp

text \<open>
  C10. An argument given as \<open>0\<close> is treated as one not given: \<^verbatim>\<open>min_rssi = 0\<close>,
  \<^verbatim>\<open>max_rssi = 0\<close> and \<^verbatim>\<open>max_networks = 0\<close> each give the result of leaving the argument
  out. With a selected list that is not empty, \<^verbatim>\<open>max_networks = 0\<close> returns the whole
  filtered list, and \<^verbatim>\<open>min_rssi = 0\<close> stands for the least RSSI of the list.
\<close>

theorem get_networks_zero_is_default:
  "get_networks self (Some 0) max_rssi max_networks device_type
     = get_networks self None max_rssi max_networks device_type \<and>
   get_networks self min_rssi (Some 0) max_networks device_type
     = get_networks self min_rssi None max_networks device_type \<and>
   get_networks self min_rssi max_rssi (Some 0) device_type
     = get_networks self min_rssi max_rssi None device_type \<and>
   (wifi self \<noteq> [] \<longrightarrow>
      get_networks self min_rssi max_rssi (Some 0) ''wifi''
        = Inr (filter (\<lambda>x. or_default min_rssi (Min (set (map rssi (wifi self)))) \<le> rssi x \<and>
                         rssi x \<le> or_default max_rssi (Max (set (map rssi (wifi self)))))
                 (wifi self)) \<and>
      get_networks self (Some 0) max_rssi max_networks ''wifi''
        = get_networks self (Some (Min (set (map rssi (wifi self))))) max_rssi max_networks
            ''wifi'') \<and>
   (bt self \<noteq> [] \<longrightarrow>
      get_networks self min_rssi max_rssi (Some 0) ''bt''
        = Inr (filter (\<lambda>x. or_default min_rssi (Min (set (map rssi (bt self)))) \<le> rssi x \<and>
                         rssi x \<le> or_default max_rssi (Max (set (map rssi (bt self)))))
                 (bt self)) \<and>
      get_networks self (Some 0) max_rssi max_networks ''bt''
        = get_networks self (Some (Min (set (map rssi (bt self))))) max_rssi max_networks
            ''bt'')"
proof -
  have take_all: "py_slice_to (filter P xs) (int (length xs)) = filter P xs"
    for P and xs :: "Network list"
    by (simp add: py_slice_to_def)
  have same: "or_default (Some m) m = m" for m
    by (simp add: or_default_def)
  show ?thesis
    by (simp add: get_networks_def Let_def or_default_simps take_all same del: set_map)
qed

theorem get_networks_zero_is_default_witness:
  "get_networks \<lparr>meta = None, networks = [], filename = [], n_wifi = 3, n_bt = 0, wifi = [\<lparr>bssid = ''00:00:00:00:00:01'', channel = 1, rssi = - 50, lat = 0, lon = 0,
  ssid = Some ''a'', distance_x = None, distance_xy = None, distance_y = None, qos = None\<rparr>, \<lparr>bssid = ''00:00:00:00:00:02'', channel = 6, rssi = - 70, lat = 0, lon = 0,
  ssid = Some ''b'', distance_x = None, distance_xy = None, distance_y = None, qos = None\<rparr>, \<lparr>bssid = ''00:00:00:00:00:03'', channel = 11, rssi = - 90, lat = 0, lon = 0,
  ssid = Some ''c'', distance_x = None, distance_xy = None, distance_y = None, qos = None\<rparr>], bt = []\<rparr> (Some (- 70)) None (Some 0) ''wifi'' = Inr [\<lparr>bssid = ''00:00:00:00:00:01'', channel = 1, rssi = - 50, lat = 0, lon = 0,
  ssid = Some ''a'', distance_x = None, distance_xy = None, distance_y = None, qos = None\<rparr>, \<lparr>bssid = ''00:00:00:00:00:02'', channel = 6, rssi = - 70, lat = 0, lon = 0,
  ssid = Some ''b'', distance_x = None, distance_xy = None, distance_y = None, qos = None\<rparr>] \<and>
   get_networks \<lparr>meta = None, networks = [], filename = [], n_wifi = 3, n_bt = 0, wifi = [\<lparr>bssid = ''00:00:00:00:00:01'', channel = 1, rssi = - 50, lat = 0, lon = 0,
  ssid = Some ''a'', distance_x = None, distance_xy = None, distance_y = None, qos = None\<rparr>, \<lparr>bssid = ''00:00:00:00:00:02'', channel = 6, rssi = - 70, lat = 0, lon = 0,
  ssid = Some ''b'', distance_x = None, distance_xy = None, distance_y = None, qos = None\<rparr>, \<lparr>bssid = ''00:00:00:00:00:03'', channel = 11, rssi = - 90, lat = 0, lon = 0,
  ssid = Some ''c'', distance_x = None, distance_xy = None, distance_y = None, qos = None\<rparr>], bt = []\<rparr> (Some 0) None (Some 2) ''wifi''
     = get_networks \<lparr>meta = None, networks = [], filename = [], n_wifi = 3, n_bt = 0, wifi = [\<lparr>bssid = ''00:00:00:00:00:01'', channel = 1, rssi = - 50, lat = 0, lon = 0,
  ssid = Some ''a'', distance_x = None, distance_xy = None, distance_y = None, qos = None\<rparr>, \<lparr>bssid = ''00:00:00:00:00:02'', channel = 6, rssi = - 70, lat = 0, lon = 0,
  ssid = Some ''b'', distance_x = None, distance_xy = None, distance_y = None, qos = None\<rparr>, \<lparr>bssid = ''00:00:00:00:00:03'', channel = 11, rssi = - 90, lat = 0, lon = 0,
  ssid = Some ''c'', distance_x = None, distance_xy = None, distance_y = None, qos = None\<rparr>], bt = []\<rparr> (Some (- 90)) None (Some 2) ''wifi''"
  using
    get_networks_zero_is_default [of "\<lparr>meta = None, networks = [], filename = [], n_wifi = 3, n_bt = 0, wifi = [\<lparr>bssid = ''00:00:00:00:00:01'', channel = 1, rssi = - 50, lat = 0, lon = 0,
  ssid = Some ''a'', distance_x = None, distance_xy = None, distance_y = None, qos = None\<rparr>, \<lparr>bssid = ''00:00:00:00:00:02'', channel = 6, rssi = - 70, lat = 0, lon = 0,
  ssid = Some ''b'', distance_x = None, distance_xy = None, distance_y = None, qos = None\<rparr>, \<lparr>bssid = ''00:00:00:00:00:03'', channel = 11, rssi = - 90, lat = 0, lon = 0,
  ssid = Some ''c'', distance_x = None, distance_xy = None, distance_y = None, qos = None\<rparr>], bt = []\<rparr>" None "Some 2" "''wifi''" "Some (- 70)"]
  by (simp add: get_networks_def or_default_def py_slice_to_def)

section \<open>The converter script: the properties\<close>

subsection \<open>The command line\<close>

text \<open>
  C6, as the code has it. \<^verbatim>\<open>nets_per_of\<close> is 20 when \<^verbatim>\<open>sys.argv\<close> has no sixth element
  (the fifth positional argument is left out), and \<^verbatim>\<open>main\<close> does not fail there. When
  the argument is there and \<^verbatim>\<open>int\<close> returns an integer for it, \<^verbatim>\<open>nets_per_of\<close> is that
  integer; when \<^verbatim>\<open>int\<close> raises \<^verbatim>\<open>ValueError\<close> for it, the \<^verbatim>\<open>ValueError\<close> leaves
  \<^verbatim>\<open>main\<close>: there is no default then. This holds whatever \<^verbatim>\<open>int\<close> accepts.
\<close>

theorem nets_per_of_arg_default:
  "(length argv \<le> 5 \<longrightarrow> nets_per_of_arg py_int argv = Inr 20) \<and>
   (5 < length argv \<and> py_int (argv ! 5) = Inr n \<longrightarrow> nets_per_of_arg py_int argv = Inr n) \<and>
   (5 < length argv \<and> py_int (argv ! 5) = Inl ValueError \<longrightarrow>
      nets_per_of_arg py_int argv = Inl ValueError)"
  by (simp add: nets_per_of_arg_def py_getitem_def)

text \<open>
  Three command lines, with a stand-in for \<^verbatim>\<open>int\<close> that does on the arguments used
  what \<^verbatim>\<open>int\<close> does: \<^verbatim>\<open>int('7')\<close> is 7, \<^verbatim>\<open>int('1.5')\<close> raises \<^verbatim>\<open>ValueError\<close>.
\<close>

theorem nets_per_of_arg_default_witness:
  "nets_per_of_arg (\<lambda>a. if a = ''7'' then Inr 7 else Inl ValueError) [''wigle_to_skylift.py'', ''in.json'', ''out'', ''52.5'', ''13.4''] = Inr 20 \<and>
   nets_per_of_arg (\<lambda>a. if a = ''7'' then Inr 7 else Inl ValueError) [''wigle_to_skylift.py'', ''in.json'', ''out'', ''52.5'', ''13.4'', ''7''] = Inr 7 \<and>
   nets_per_of_arg (\<lambda>a. if a = ''7'' then Inr 7 else Inl ValueError) [''wigle_to_skylift.py'', ''in.json'', ''out'', ''52.5'', ''13.4'', ''1.5''] = Inl ValueError"
  using
    nets_per_of_arg_default [of "[''wigle_to_skylift.py'', ''in.json'', ''out'', ''52.5'', ''13.4'']" "(\<lambda>a. if a = ''7'' then Inr 7 else Inl ValueError)" 7]
    nets_per_of_arg_default [of "[''wigle_to_skylift.py'', ''in.json'', ''out'', ''52.5'', ''13.4'', ''7'']" "(\<lambda>a. if a = ''7'' then Inr 7 else Inl ValueError)" 7]
    nets_per_of_arg_default [of "[''wigle_to_skylift.py'', ''in.json'', ''out'', ''52.5'', ''13.4'', ''1.5'']" "(\<lambda>a. if a = ''7'' then Inr 7 else Inl ValueError)" 7]
  by simp

text \<open>
  C6 as the specification words it fails. With \<^verbatim>\<open>abc\<close> as the fifth positional
  argument, for which \<^verbatim>\<open>int\<close> raises \<^verbatim>\<open>ValueError\<close>, \<^verbatim>\<open>nets_per_of\<close> is not 20:
  \<^verbatim>\<open>main\<close> ends in the \<^verbatim>\<open>ValueError\<close>. So it is not true that an argument for which
  \<^verbatim>\<open>int\<close> raises \<^verbatim>\<open>ValueError\<close> always gives 20.
\<close>

theorem nets_per_of_arg_counterexample:
  "nets_per_of_arg (\<lambda>a. if a = ''7'' then Inr 7 else Inl ValueError) [''wigle_to_skylift.py'', ''in.json'', ''out'', ''52.5'', ''13.4'', ''abc''] = Inl ValueError \<and>
   \<not> (\<forall>py_int argv. 5 < length argv \<and> py_int (argv ! 5) = Inl ValueError \<longrightarrow>
          nets_per_of_arg py_int argv = Inr 20)"
proof (rule conjI)
  show at_abc: "nets_per_of_arg (\<lambda>a. if a = ''7'' then Inr 7 else Inl ValueError) [''wigle_to_skylift.py'', ''in.json'', ''out'', ''52.5'', ''13.4'', ''abc''] = Inl ValueError"
    by (simp add: nets_per_of_arg_def py_getitem_def)
  show "\<not> (\<forall>py_int argv. 5 < length argv \<and> py_int (argv ! 5) = Inl ValueError \<longrightarrow>
      nets_per_of_arg py_int argv = Inr 20)"
  proof
    assume "\<forall>py_int argv. 5 < length argv \<and> py_int (argv ! 5) = Inl ValueError \<longrightarrow>
      nets_per_of_arg py_int argv = Inr 20"
    from this [rule_format, where py_int = "(\<lambda>a. if a = ''7'' then Inr 7 else Inl ValueError)" and argv = "[''wigle_to_skylift.py'', ''in.json'', ''out'', ''52.5'', ''13.4'', ''abc'']"]
    have "nets_per_of_arg (\<lambda>a. if a = ''7'' then Inr 7 else Inl ValueError) [''wigle_to_skylift.py'', ''in.json'', ''out'', ''52.5'', ''13.4'', ''abc''] = Inr 20"
      by simp
    with at_abc show False by simp
  qed
qed

subsection \<open>The slices and the files of the loop\<close>

lemma chunks_Nil [simp]: "chunks k [] = []"
  by (simp add: chunks.simps)

lemma chunks_Cons:
  "0 < k \<Longrightarrow> xs \<noteq> [] \<Longrightarrow> chunks k xs = take k xs # chunks k (drop k xs)"
  by (subst chunks.simps) simp

lemma concat_chunks: "0 < k \<Longrightarrow> concat (chunks k xs) = xs"
proof (induction k xs rule: chunks.induct)
  case (1 k xs)
  show ?case
  proof (cases "xs = []")
    case True
    then show ?thesis by simp
  next
    case False
    with 1 show ?thesis by (simp add: chunks_Cons)
  qed
qed

lemma length_chunks: "0 < k \<Longrightarrow> length (chunks k xs) = (length xs + k - 1) div k"
proof (induction k xs rule: chunks.induct)
  case (1 k xs)
  show ?case
  proof (cases "xs = []")
    case True
    with 1(2) show ?thesis by simp
  next
    case False
    then have pos: "0 < length xs" by simp
    have IH: "length (chunks k (drop k xs)) = (length xs - k + k - 1) div k"
      using 1 False by simp
    show ?thesis
    proof (cases "k \<le> length xs")
      case True
      then have "(length xs + k - 1) div k = (length xs - 1) div k + 1"
        using 1(2) pos by (metis Nat.add_diff_assoc2 One_nat_def Suc_leI div_add_self2 less_numeral_extra(3))
      with True IH 1(2) False show ?thesis by (simp add: chunks_Cons)
    next
      case False
      then have "drop k xs = []" by simp
      moreover have "k \<le> length xs + k - 1" "length xs + k - 1 < 2 * k"
        using False pos by linarith+
      then have "(length xs + k - 1) div k = 1"
        by (intro Euclidean_Rings.div_nat_eqI) simp_all
      ultimately show ?thesis using 1(2) \<open>xs \<noteq> []\<close> by (simp add: chunks_Cons)
    qed
  qed
qed

lemma nth_chunks:
  "0 < k \<Longrightarrow> j < length (chunks k xs) \<Longrightarrow> chunks k xs ! j = take k (drop (j * k) xs)"
proof (induction k xs arbitrary: j rule: chunks.induct)
  case (1 k xs)
  from 1(3) have ne: "xs \<noteq> []" by auto
  show ?case
  proof (cases j)
    case 0
    with 1(2) ne show ?thesis by (simp add: chunks_Cons)
  next
    case (Suc j')
    with 1(3) 1(2) ne have "j' < length (chunks k (drop k xs))" by (simp add: chunks_Cons)
    with 1(1) [of j'] 1(2) ne have "chunks k (drop k xs) ! j' = take k (drop (j' * k) (drop k xs))"
      by simp
    with Suc 1(2) ne show ?thesis by (simp add: chunks_Cons add.commute)
  qed
qed

lemma chunks_nonempty: "ch \<in> set (chunks k xs) \<Longrightarrow> ch \<noteq> []"
proof (induction k xs rule: chunks.induct)
  case (1 k xs)
  show ?case
  proof (cases "k = 0 \<or> xs = []")
    case True
    with 1(2) show ?thesis by (simp add: chunks.simps)
  next
    case False
    with 1 show ?thesis by (auto simp: chunks_Cons)
  qed
qed

lemma length_outfiles [simp]: "length (outfiles out_dir sl_meta i chs) = length chs"
  by (induction chs arbitrary: i) simp_all

lemma networks_outfiles:
  "map (\<lambda>f. data_networks (dumped f)) (outfiles out_dir sl_meta i chs) = chs"
  by (induction chs arbitrary: i) simp_all

lemma meta_outfiles:
  "f \<in> set (outfiles out_dir sl_meta i chs) \<Longrightarrow> data_meta (dumped f) = sl_meta"
  by (induction chs arbitrary: i) auto

lemma names_outfiles:
  "map fn_out (outfiles out_dir sl_meta i chs) =
     map (\<lambda>j. out_dir @ os_sep @ ''skylift_'' @ py_str (i + int j + 1) @ ''.json'') [0..<length chs]"
proof (induction chs arbitrary: i)
  case Nil
  show ?case by simp
next
  case (Cons ch chs)
  have upt: "[0..<length (ch # chs)] = 0 # map Suc [0..<length chs]"
    by (simp add: upt_conv_Cons map_Suc_upt del: upt_Suc)
  have shift: "i + 1 + int j + 1 = i + int (Suc j) + 1" for j
    by simp
  have "map fn_out (outfiles out_dir sl_meta i (ch # chs)) =
      (out_dir @ os_sep @ ''skylift_'' @ py_str (i + int 0 + 1) @ ''.json'')
        # map fn_out (outfiles out_dir sl_meta (i + 1) chs)"
    by simp
  also have "map fn_out (outfiles out_dir sl_meta (i + 1) chs) =
      map (\<lambda>j. out_dir @ os_sep @ ''skylift_'' @ py_str (i + int (Suc j) + 1) @ ''.json'')
        [0..<length chs]"
    unfolding Cons.IH [of "i + 1"] shift ..
  finally show ?case
    unfolding upt by (simp only: list.map map_map comp_def)
qed

lemma write_loop_chunks:
  assumes "0 < K" and "0 \<le> c" and "c \<le> int (length nets)"
  shows "write_loop out_dir sl_meta nets K i c written =
           Some (written @ outfiles out_dir sl_meta i (chunks (nat K) (drop (nat c) nets)))"
  using assms
proof (induction "length nets - nat c" arbitrary: c i written rule: less_induct)
  case less
  show ?case
  proof (cases "c < int (length nets)")
    case False
    with less.prems have "drop (nat c) nets = []" by simp
    with False show ?thesis by (subst write_loop.simps) simp
  next
    case True
    define t where "t = (if int (length nets) - c < K then int (length nets) - c else K)"
    have t: "0 < t" "c + t \<le> int (length nets)" "t \<le> K"
      using True less.prems by (simp_all add: t_def)
    have ne: "drop (nat c) nets \<noteq> []" using True less.prems by simp
    have slice: "py_slice nets c (c + t) = take (nat t) (drop (nat c) nets)"
      using t less.prems by (simp add: py_slice_def Let_def min_def)
    have tk: "take (nat t) (drop (nat c) nets) = take (nat K) (drop (nat c) nets)"
      using less.prems True by (simp add: t_def)
    have dr: "drop (nat (c + t)) nets = drop (nat K) (drop (nat c) nets)"
      using less.prems True by (simp add: t_def nat_add_distrib add.commute)
    have "length nets - nat (c + t) < length nets - nat c"
      using t True less.prems by linarith
    from less.hyps [OF this, of "i + 1"] t less.prems
    have IH: "write_loop out_dir sl_meta nets K (i + 1) (c + t) w =
        Some (w @ outfiles out_dir sl_meta (i + 1) (chunks (nat K) (drop (nat (c + t)) nets)))" for w
      by simp
    have ch: "chunks (nat K) (drop (nat c) nets) =
        take (nat K) (drop (nat c) nets) # chunks (nat K) (drop (nat K) (drop (nat c) nets))"
      using ne less.prems by (intro chunks_Cons) simp_all
    show ?thesis
      using True
      by (subst write_loop.simps) (simp add: Let_def t_def [symmetric] slice IH ch tk dr)
  qed
qed

lemma chunks_bounds:
  "0 < k \<Longrightarrow> xs \<noteq> [] \<Longrightarrow>
     k * (length (chunks k xs) - 1) < length xs \<and> length xs \<le> k * length (chunks k xs)"
proof (induction k xs rule: chunks.induct)
  case (1 k xs)
  let ?q = "length (chunks k (drop k xs))"
  have q: "length (chunks k xs) = Suc ?q"
    using 1(2,3) by (simp add: chunks_Cons)
  show ?case
  proof (cases "length xs \<le> k")
    case True
    then have "?q = 0" by simp
    with q True 1(3) show ?thesis by simp
  next
    case False
    then have "drop k xs \<noteq> []" by simp
    with 1 have IH: "k * (?q - 1) < length xs - k" "length xs - k \<le> k * ?q"
      by simp_all
    from IH(2) False have "0 < ?q" by (cases ?q) simp_all
    then have eq: "k * ?q = k * (?q - 1) + k" by (cases ?q) simp_all
    have "k * ?q < length xs" using IH(1) eq False by linarith
    moreover have "length xs \<le> k + k * ?q" using IH(2) by linarith
    ultimately show ?thesis using q by simp
  qed
qed

lemma length_chunks_ceiling:
  assumes "0 < k"
  shows "int (length (chunks k xs)) = \<lceil>real (length xs) / real k\<rceil>"
proof (cases "xs = []")
  case True
  then show ?thesis by simp
next
  case False
  let ?q = "length (chunks k xs)"
  from chunks_bounds [OF assms False]
  have lo: "k * (?q - 1) < length xs" and hi: "length xs \<le> k * ?q" by simp_all
  from hi False assms have qpos: "0 < ?q" by (cases ?q) simp_all
  have "real k * (real ?q - 1) < real (length xs)"
    using lo qpos by (metis of_nat_1 of_nat_diff of_nat_less_iff of_nat_mult Suc_leI One_nat_def)
  then have 1: "of_int (int ?q) - 1 < real (length xs) / real k"
    using assms by (simp add: pos_less_divide_eq mult.commute)
  have "real (length xs) \<le> real k * real ?q"
    using hi by (metis of_nat_le_iff of_nat_mult)
  then have 2: "real (length xs) / real k \<le> of_int (int ?q)"
    using assms by (simp add: pos_divide_le_eq mult.commute)
  from 1 2 show ?thesis by (rule ceiling_unique [symmetric])
qed

lemma digit_char_code: "d < 10 \<Longrightarrow> (of_char (digit_char d) :: nat) = 48 + d"
proof -
  assume "d < 10"
  then have "d = 0 \<or> d = 1 \<or> d = 2 \<or> d = 3 \<or> d = 4 \<or> d = 5 \<or> d = 6 \<or> d = 7 \<or> d = 8 \<or> d = 9"
    by arith
  then show ?thesis by (auto simp: digit_char_def)
qed

lemma str_nat_value:
  "foldl (\<lambda>a c. 10 * a + (of_char c - 48)) 0 (str_nat n) = n"
proof (induction n rule: str_nat.induct)
  case (1 n)
  show ?case
  proof (cases "n < 10")
    case True
    then show ?thesis by (subst str_nat.simps) (simp add: digit_char_code)
  next
    case False
    with 1 show ?thesis by (subst str_nat.simps) (simp add: digit_char_code)
  qed
qed

lemma str_nat_inj: "str_nat a = str_nat b \<Longrightarrow> a = b"
  by (metis str_nat_value)

lemma distinct_names:
  "distinct (map (\<lambda>j. out_dir @ os_sep @ ''skylift_'' @ py_str (0 + int j + 1) @ ''.json'') [0..<m])"
proof -
  have "inj_on (\<lambda>j. out_dir @ os_sep @ ''skylift_'' @ py_str (0 + int j + 1) @ ''.json'') (set [0..<m])"
    by (rule inj_onI) (auto simp: py_str_def nat_add_distrib dest!: str_nat_inj)
  then show ?thesis by (simp add: distinct_map)
qed

lemma write_outfiles_chunks:
  assumes "0 < K"
  shows "write_outfiles out_dir sl_meta nets K =
           Some (outfiles out_dir sl_meta 0 (chunks (nat K) nets))"
  using write_loop_chunks [OF assms, of 0 nets out_dir sl_meta 0 "[]"]
  by (simp add: write_outfiles_def)

lemma nth_outfiles:
  "j < length chs \<Longrightarrow> data_networks (dumped (outfiles out_dir sl_meta i chs ! j)) = chs ! j"
  using networks_outfiles [of out_dir sl_meta i chs]
  by (metis length_outfiles nth_map)

lemma last_outfiles:
  assumes "chs \<noteq> []"
  shows "data_networks (dumped (last (outfiles out_dir sl_meta i chs))) = last chs"
proof -
  have "outfiles out_dir sl_meta i chs \<noteq> []"
    using assms by (metis length_outfiles length_0_conv)
  with assms nth_outfiles [of "length chs - 1" chs out_dir sl_meta i] show ?thesis
    by (simp add: last_conv_nth)
qed

lemma length_full_chunk:
  assumes "0 < k" and "Suc j < length (chunks k xs)"
  shows "length (chunks k xs ! j) = k"
proof -
  from assms have ne: "xs \<noteq> []" by auto
  from chunks_bounds [OF assms(1) ne] have lo: "k * (length (chunks k xs) - 1) < length xs"
    by simp
  from assms(2) have "Suc j \<le> length (chunks k xs) - 1" by simp
  then have "k * Suc j \<le> k * (length (chunks k xs) - 1)" by (rule mult_le_mono2)
  with lo have "k + j * k \<le> length xs" by (simp add: mult.commute)
  with assms show ?thesis by (simp add: nth_chunks)
qed

lemma length_last_chunk:
  assumes "0 < k" and "xs \<noteq> []"
  shows "int (length (last (chunks k xs))) = int (length xs) - int k * (int (length (chunks k xs)) - 1)"
proof -
  let ?q = "length (chunks k xs)"
  from chunks_bounds [OF assms] have lo: "k * (?q - 1) < length xs" and hi: "length xs \<le> k * ?q"
    by simp_all
  from hi assms have qpos: "0 < ?q" by (cases ?q) simp_all
  then have ne: "chunks k xs \<noteq> []" by simp
  have eq: "k * ?q = k * (?q - 1) + k" using qpos by (cases ?q) simp_all
  have "last (chunks k xs) = take k (drop ((?q - 1) * k) xs)"
    using ne qpos assms(1) by (simp add: last_conv_nth nth_chunks)
  then have "length (last (chunks k xs)) = length xs - k * (?q - 1)"
    using hi eq by (simp add: mult.commute)
  moreover have "int (k * (?q - 1)) = int k * (int ?q - 1)"
    using qpos by (simp add: of_nat_diff Suc_leI)
  ultimately show ?thesis using lo by (simp add: of_nat_diff)
qed

subsection \<open>The output files\<close>

text \<open>
  C3. For a list of \<open>N\<close> networks and a positive \<^verbatim>\<open>nets_per_of\<close> \<open>K\<close> the loop ends and
  has written \<open>\<lceil>N / K\<rceil>\<close> files, under names that differ; every file but the last holds
  \<open>K\<close> networks, the last one \<open>N - K * (files - 1)\<close>; no file holds an empty list, and
  no file is written exactly when the list is empty.
\<close>

theorem write_outfiles_chunk_sizes:
  assumes "0 < K"
  shows "\<exists>files. write_outfiles out_dir sl_meta sl_networks K = Some files \<and>
           int (length files) = \<lceil>real (length sl_networks) / real_of_int K\<rceil> \<and>
           (\<forall>j. Suc j < length files \<longrightarrow>
                int (length (data_networks (dumped (files ! j)))) = K) \<and>
           (files \<noteq> [] \<longrightarrow>
              int (length (data_networks (dumped (last files))))
                = int (length sl_networks) - K * (int (length files) - 1)) \<and>
           (\<forall>f \<in> set files. 0 < length (data_networks (dumped f))) \<and>
           (sl_networks = [] \<longleftrightarrow> files = []) \<and>
           distinct (map fn_out files)"
proof -
  let ?k = "nat K"
  let ?chs = "chunks ?k sl_networks"
  let ?files = "outfiles out_dir sl_meta 0 ?chs"
  from assms have k: "0 < ?k" "int ?k = K" by simp_all
  have run: "write_outfiles out_dir sl_meta sl_networks K = Some ?files"
    by (rule write_outfiles_chunks [OF assms])
  have count: "int (length ?files) = \<lceil>real (length sl_networks) / real_of_int K\<rceil>"
    using length_chunks_ceiling [OF k(1), of sl_networks] k(2)
    by (metis length_outfiles of_int_of_nat_eq)
  have full: "int (length (data_networks (dumped (?files ! j)))) = K" if "Suc j < length ?files" for j
  proof -
    from that have j: "Suc j < length ?chs" by simp
    then have "data_networks (dumped (?files ! j)) = ?chs ! j"
      by (intro nth_outfiles) simp
    with length_full_chunk [OF k(1) j] k(2) show ?thesis by simp
  qed
  have empty_iff: "sl_networks = [] \<longleftrightarrow> ?files = []"
  proof
    assume "sl_networks = []"
    then show "?files = []" by simp
  next
    assume "?files = []"
    then have "length ?chs = 0" by (metis length_outfiles list.size(3))
    then have "concat ?chs = []" by simp
    with concat_chunks [OF k(1), of sl_networks] show "sl_networks = []" by simp
  qed
  have last_len: "int (length (data_networks (dumped (last ?files))))
      = int (length sl_networks) - K * (int (length ?files) - 1)" if "?files \<noteq> []"
  proof -
    from that empty_iff have ne: "sl_networks \<noteq> []" by blast
    from that have "?chs \<noteq> []" by auto
    then have "data_networks (dumped (last ?files)) = last ?chs" by (rule last_outfiles)
    with length_last_chunk [OF k(1) ne] k(2) show ?thesis by simp
  qed
  have nonempty: "0 < length (data_networks (dumped f))" if "f \<in> set ?files" for f
  proof -
    from that have "data_networks (dumped f) \<in> set (map (\<lambda>f. data_networks (dumped f)) ?files)"
      by simp
    then have "data_networks (dumped f) \<in> set ?chs" by (simp only: networks_outfiles)
    then show ?thesis using chunks_nonempty by blast
  qed
  have names: "distinct (map fn_out ?files)"
    unfolding names_outfiles by (rule distinct_names)
  from run count full last_len nonempty empty_iff names show ?thesis by blast
qed

text \<open>The example of the specification: 45 networks, 20 in each file, give files of 20, 20 and 5.\<close>

theorem write_outfiles_chunk_sizes_witness:
  "\<exists>files. write_outfiles ''out'' \<lparr>m_comment = [], m_filepath = [], m_lat = 1, m_lon = 2, m_radius = 1, m_run = 1, m_since = 20240101, m_type = ''wigle''\<rparr> (replicate 45 \<lparr>sl_bssid = ''00:00:00:00:00:01'', sl_channel = 1, sl_distance_x = 0, sl_distance_xy = 3, sl_distance_y = 3, sl_lat = 0, sl_lon = 0, sl_qos = None, sl_rssi = - 50, sl_ssid = Some ''n1''\<rparr>) 20 = Some files \<and>
     length files = 3 \<and>
     length (data_networks (dumped (files ! 0))) = 20 \<and>
     length (data_networks (dumped (files ! 1))) = 20 \<and>
     length (data_networks (dumped (last files))) = 5"
proof -
  have "(0::int) < 20" by simp
  from write_outfiles_chunk_sizes [OF this, of "''out''" "\<lparr>m_comment = [], m_filepath = [], m_lat = 1, m_lon = 2, m_radius = 1, m_run = 1, m_since = 20240101, m_type = ''wigle''\<rparr>" "replicate 45 \<lparr>sl_bssid = ''00:00:00:00:00:01'', sl_channel = 1, sl_distance_x = 0, sl_distance_xy = 3, sl_distance_y = 3, sl_lat = 0, sl_lon = 0, sl_qos = None, sl_rssi = - 50, sl_ssid = Some ''n1''\<rparr>"]
  obtain files where run: "write_outfiles ''out'' \<lparr>m_comment = [], m_filepath = [], m_lat = 1, m_lon = 2, m_radius = 1, m_run = 1, m_since = 20240101, m_type = ''wigle''\<rparr> (replicate 45 \<lparr>sl_bssid = ''00:00:00:00:00:01'', sl_channel = 1, sl_distance_x = 0, sl_distance_xy = 3, sl_distance_y = 3, sl_lat = 0, sl_lon = 0, sl_qos = None, sl_rssi = - 50, sl_ssid = Some ''n1''\<rparr>) 20 = Some files"
    and count: "int (length files) = \<lceil>real (length (replicate 45 \<lparr>sl_bssid = ''00:00:00:00:00:01'', sl_channel = 1, sl_distance_x = 0, sl_distance_xy = 3, sl_distance_y = 3, sl_lat = 0, sl_lon = 0, sl_qos = None, sl_rssi = - 50, sl_ssid = Some ''n1''\<rparr>)) / real_of_int 20\<rceil>"
    and full: "\<forall>j. Suc j < length files \<longrightarrow>
        int (length (data_networks (dumped (files ! j)))) = 20"
    and last_len: "files \<noteq> [] \<longrightarrow> int (length (data_networks (dumped (last files))))
        = int (length (replicate 45 \<lparr>sl_bssid = ''00:00:00:00:00:01'', sl_channel = 1, sl_distance_x = 0, sl_distance_xy = 3, sl_distance_y = 3, sl_lat = 0, sl_lon = 0, sl_qos = None, sl_rssi = - 50, sl_ssid = Some ''n1''\<rparr>)) - 20 * (int (length files) - 1)"
    by blast
  from count have n: "length files = 3" by simp
  with full have "int (length (data_networks (dumped (files ! 0)))) = 20"
    and "int (length (data_networks (dumped (files ! 1)))) = 20"
    by simp_all
  moreover from n last_len have "int (length (data_networks (dumped (last files)))) = 5"
    by auto
  ultimately show ?thesis using run n by auto
qed

text \<open>
  C2. For a positive \<^verbatim>\<open>nets_per_of\<close> the loop ends, and the \<^verbatim>\<open>networks\<close> lists of the
  files, concatenated in the order \<^verbatim>\<open>skylift_1.json\<close>, \<^verbatim>\<open>skylift_2.json\<close>, ... in which they
  were written, are the sorted list: the networks of the input, each as often as there,
  in ascending order of the absolute value of \<^verbatim>\<open>distance_xy\<close>. Every file carries the
  same \<^verbatim>\<open>sl_meta\<close>.
\<close>

theorem main_write_concat:
  assumes "0 < K"
  shows "\<exists>files. main_write out_dir sl_meta sl_networks K = Some files \<and>
           concat (map (\<lambda>f. data_networks (dumped f)) files) = sort_networks sl_networks \<and>
           sorted (map (\<lambda>n. \<bar>sl_distance_xy n\<bar>) (concat (map (\<lambda>f. data_networks (dumped f)) files))) \<and>
           mset (concat (map (\<lambda>f. data_networks (dumped f)) files)) = mset sl_networks \<and>
           map fn_out files =
             map (\<lambda>j. out_dir @ os_sep @ ''skylift_'' @ py_str (int j + 1) @ ''.json'')
               [0..<length files] \<and>
           (\<forall>f \<in> set files. data_meta (dumped f) = sl_meta)"
proof -
  let ?sorted = "sort_networks sl_networks"
  let ?files = "outfiles out_dir sl_meta 0 (chunks (nat K) ?sorted)"
  from assms have k: "0 < nat K" by simp
  have run: "main_write out_dir sl_meta sl_networks K = Some ?files"
    unfolding main_write_def by (rule write_outfiles_chunks [OF assms])
  have cat: "concat (map (\<lambda>f. data_networks (dumped f)) ?files) = ?sorted"
    by (simp only: networks_outfiles concat_chunks [OF k])
  have srt: "sorted (map (\<lambda>n. \<bar>sl_distance_xy n\<bar>) ?sorted)"
    by (simp add: sort_networks_def)
  have perm: "mset ?sorted = mset sl_networks"
    by (simp add: sort_networks_def)
  have names: "map fn_out ?files =
      map (\<lambda>j. out_dir @ os_sep @ ''skylift_'' @ py_str (int j + 1) @ ''.json'') [0..<length ?files]"
    using names_outfiles [of out_dir sl_meta 0 "chunks (nat K) ?sorted"] by simp
  have metas: "\<forall>f \<in> set ?files. data_meta (dumped f) = sl_meta"
    using meta_outfiles by blast
  from run cat srt perm names metas show ?thesis
    by (metis (no_types, lifting))
qed

theorem main_write_concat_witness:
  "\<exists>files. main_write ''out'' \<lparr>m_comment = [], m_filepath = [], m_lat = 1, m_lon = 2, m_radius = 1, m_run = 1, m_since = 20240101, m_type = ''wigle''\<rparr> [\<lparr>sl_bssid = ''00:00:00:00:00:01'', sl_channel = 1, sl_distance_x = 0, sl_distance_xy = 3, sl_distance_y = 3, sl_lat = 0, sl_lon = 0, sl_qos = None, sl_rssi = - 50, sl_ssid = Some ''n1''\<rparr>, \<lparr>sl_bssid = ''00:00:00:00:00:02'', sl_channel = 2, sl_distance_x = 0, sl_distance_xy = - 1, sl_distance_y = - 1, sl_lat = 0, sl_lon = 0, sl_qos = None, sl_rssi = - 50, sl_ssid = Some ''n2''\<rparr>, \<lparr>sl_bssid = ''00:00:00:00:00:03'', sl_channel = 3, sl_distance_x = 0, sl_distance_xy = 2, sl_distance_y = 2, sl_lat = 0, sl_lon = 0, sl_qos = None, sl_rssi = - 50, sl_ssid = Some ''n3''\<rparr>] 2 = Some files \<and>
     concat (map (\<lambda>f. data_networks (dumped f)) files) = [\<lparr>sl_bssid = ''00:00:00:00:00:02'', sl_channel = 2, sl_distance_x = 0, sl_distance_xy = - 1, sl_distance_y = - 1, sl_lat = 0, sl_lon = 0, sl_qos = None, sl_rssi = - 50, sl_ssid = Some ''n2''\<rparr>, \<lparr>sl_bssid = ''00:00:00:00:00:03'', sl_channel = 3, sl_distance_x = 0, sl_distance_xy = 2, sl_distance_y = 2, sl_lat = 0, sl_lon = 0, sl_qos = None, sl_rssi = - 50, sl_ssid = Some ''n3''\<rparr>, \<lparr>sl_bssid = ''00:00:00:00:00:01'', sl_channel = 1, sl_distance_x = 0, sl_distance_xy = 3, sl_distance_y = 3, sl_lat = 0, sl_lon = 0, sl_qos = None, sl_rssi = - 50, sl_ssid = Some ''n1''\<rparr>]"
  using main_write_concat [of 2 "''out''" "\<lparr>m_comment = [], m_filepath = [], m_lat = 1, m_lon = 2, m_radius = 1, m_run = 1, m_since = 20240101, m_type = ''wigle''\<rparr>" "[\<lparr>sl_bssid = ''00:00:00:00:00:01'', sl_channel = 1, sl_distance_x = 0, sl_distance_xy = 3, sl_distance_y = 3, sl_lat = 0, sl_lon = 0, sl_qos = None, sl_rssi = - 50, sl_ssid = Some ''n1''\<rparr>, \<lparr>sl_bssid = ''00:00:00:00:00:02'', sl_channel = 2, sl_distance_x = 0, sl_distance_xy = - 1, sl_distance_y = - 1, sl_lat = 0, sl_lon = 0, sl_qos = None, sl_rssi = - 50, sl_ssid = Some ''n2''\<rparr>, \<lparr>sl_bssid = ''00:00:00:00:00:03'', sl_channel = 3, sl_distance_x = 0, sl_distance_xy = 2, sl_distance_y = 2, sl_lat = 0, sl_lon = 0, sl_qos = None, sl_rssi = - 50, sl_ssid = Some ''n3''\<rparr>]"]
  by (auto simp: sort_networks_def)

end
